theory Spec2Isabelle
  imports Complex_Main "HOL-Library.Char_ord" "HOL-Library.List_Lexorder"
begin

section \<open>Cells and rows of the listings table\<close>

text \<open>
  A float cell of a pandas column is a \<open>real option\<close>: \<open>None\<close> is NaN (a missing
  value), \<open>Some v\<close> a finite number. A text cell is a \<open>string option\<close> in the same way.
  Floating-point rounding is not modelled: arithmetic is exact.
\<close>

type_synonym fcell = "real option"
type_synonym scell = "string option"

section \<open>Root pipeline (src/clean_data.py): price normalisation\<close>

text \<open>
  \<^verbatim>\<open>normalize_price(row)\<close>, lines 36-56: the row is read through its two fields
  \<^verbatim>\<open>row['Price']\<close> and \<^verbatim>\<open>row['PriceUnit']\<close>. A missing unit is NaN, which is equal to
  no string, so it reaches the final \<^verbatim>\<open>else\<close>.
\<close>

definition normalize_price :: "fcell \<Rightarrow> scell \<Rightarrow> fcell" where
  "normalize_price price unit =
     (case price of
        None \<Rightarrow> None
      | Some p \<Rightarrow>
          if p \<le> 0 then None
          else if unit = Some ''MILLION'' then Some (p * 1000000)
          else if unit = Some ''BILLION'' then Some (p * 1000000000)
          else if unit = Some ''UNIT'' then Some p
          else if unit = Some ''UNIT_PER_SQUARE'' then Some p
          else if unit = Some ''MILLION_PER_SQUARE'' then Some (p * 1000000)
          else Some p)"


section \<open>Root pipeline: the price range filter (step 4)\<close>

text \<open>
  A row of the root pipeline's table, with the columns the claims read. The columns
  \<open>NormalizedPrice\<close>, \<open>CleanSurface\<close> and \<open>CleanRooms\<close> are added by the pipeline.
  A raw \<^verbatim>\<open>Surface\<close> or \<^verbatim>\<open>Rooms\<close> cell is text, a number, or missing.
\<close>

datatype cell = CNaN | CStr string | CNum real

record listing =
  PriceUnit :: scell
  Wilaya :: scell
  TransactionType :: scell
  Surface :: cell
  Rooms :: cell
  NormalizedPrice :: fcell
  CleanSurface :: fcell
  CleanRooms :: fcell

text \<open>Comparisons with NaN are false.\<close>

definition ge_nan :: "fcell \<Rightarrow> real \<Rightarrow> bool" where
  "ge_nan x b = (case x of None \<Rightarrow> False | Some v \<Rightarrow> b \<le> v)"

definition le_nan :: "fcell \<Rightarrow> real \<Rightarrow> bool" where
  "le_nan x b = (case x of None \<Rightarrow> False | Some v \<Rightarrow> v \<le> b)"

definition gt_nan :: "fcell \<Rightarrow> real \<Rightarrow> bool" where
  "gt_nan x b = (case x of None \<Rightarrow> False | Some v \<Rightarrow> b < v)"

definition lt_nan :: "fcell \<Rightarrow> real \<Rightarrow> bool" where
  "lt_nan x b = (case x of None \<Rightarrow> False | Some v \<Rightarrow> v < b)"

definition isna :: "'a option \<Rightarrow> bool" where
  "isna x = (x = None)"

definition MIN_PRICE :: real where "MIN_PRICE = 100000"
definition MAX_PRICE :: real where "MAX_PRICE = 1000000000"

text \<open>Lines 87-106 of \<^verbatim>\<open>clean_real_estate_data\<close>: the mask of one row. \<^verbatim>\<open>isin\<close> is false on NaN.\<close>

definition per_sqm_mask :: "listing \<Rightarrow> bool" where
  "per_sqm_mask r = (PriceUnit r \<in> {Some ''UNIT_PER_SQUARE'', Some ''MILLION_PER_SQUARE''})"

definition valid_regular_prices :: "listing \<Rightarrow> bool" where
  "valid_regular_prices r =
     ((ge_nan (NormalizedPrice r) MIN_PRICE \<and> le_nan (NormalizedPrice r) MAX_PRICE)
      \<or> isna (NormalizedPrice r))"

definition valid_per_sqm_prices :: "listing \<Rightarrow> bool" where
  "valid_per_sqm_prices r =
     ((ge_nan (NormalizedPrice r) 5000 \<and> le_nan (NormalizedPrice r) 2000000)
      \<or> isna (NormalizedPrice r))"

definition price_filter_mask :: "listing \<Rightarrow> bool" where
  "price_filter_mask r =
     ((\<not> per_sqm_mask r \<and> valid_regular_prices r) \<or> (per_sqm_mask r \<and> valid_per_sqm_prices r))"

definition filter_unrealistic_prices :: "listing list \<Rightarrow> listing list" where
  "filter_unrealistic_prices df = filter price_filter_mask df"

section \<open>Root pipeline: surface and room cleaning (steps 6 and 8)\<close>

text \<open>
  Strings are lists of 8-bit characters, read as the code points below 256. The digits
  \<^verbatim>\<open>\d\<close> and the white space \<^verbatim>\<open>\s\<close> of Python's \<^verbatim>\<open>re\<close> are modelled on that range.
\<close>

definition is_digit :: "char \<Rightarrow> bool" where
  "is_digit c = (CHR ''0'' \<le> c \<and> c \<le> CHR ''9'')"

definition is_space :: "char \<Rightarrow> bool" where
  "is_space c = (c \<in> {CHR '' '', CHR 0x09, CHR 0x0A, CHR 0x0B, CHR 0x0C, CHR 0x0D,
                      CHR 0x1C, CHR 0x1D, CHR 0x1E, CHR 0x1F, CHR 0x85, CHR 0xA0})"

text \<open>\<^verbatim>\<open>re.sub(r"[\[\]']", "", s)\<close>\<close>

definition strip_brackets :: "string \<Rightarrow> string" where
  "strip_brackets s = filter (\<lambda>c. c \<notin> {CHR ''['', CHR '']'', CHR 0x27}) s"

definition digit_val :: "char \<Rightarrow> nat" where
  "digit_val c = of_char c - of_char (CHR ''0'')"

definition digits_val :: "string \<Rightarrow> nat" where
  "digits_val ds = foldl (\<lambda>a c. 10 * a + digit_val c) 0 ds"

text \<open>
  The pattern \<^verbatim>\<open>(\d+(?:\.\d+)?)\s*m[..]?\<close> with \<^verbatim>\<open>re.IGNORECASE\<close>, tried at the start of a
  string. The digit runs and the white space are greedy, and giving back a character of
  any of them leaves a digit or a space in front of the next item, which then fails: so
  the match, if any, takes the whole runs. The optional class after \<^verbatim>\<open>m\<close> changes neither
  whether the pattern matches nor group 1. The result is group 1 as (integer part,
  fraction digits).
\<close>

definition starts_m :: "string \<Rightarrow> bool" where
  "starts_m s = (case s of [] \<Rightarrow> False | c # _ \<Rightarrow> c = CHR ''m'' \<or> c = CHR ''M'')"

definition surface_match_here :: "string \<Rightarrow> (string \<times> string) option" where
  "surface_match_here s =
     (let d = takeWhile is_digit s; r = dropWhile is_digit s
      in if d = [] then None
         else (case r of
                 c # r' \<Rightarrow>
                   (let f = takeWhile is_digit r'; r'' = dropWhile is_digit r'
                    in if c = CHR ''.'' \<and> f \<noteq> [] \<and> starts_m (dropWhile is_space r'')
                       then Some (d, f)
                       else if starts_m (dropWhile is_space r) then Some (d, [])
                       else None)
               | [] \<Rightarrow> None))"

text \<open>\<^verbatim>\<open>re.search\<close>: the leftmost position where the pattern matches.\<close>

fun surface_search :: "string \<Rightarrow> (string \<times> string) option" where
  "surface_search [] = None"
| "surface_search (c # cs) =
     (case surface_match_here (c # cs) of
        Some g \<Rightarrow> Some g
      | None \<Rightarrow> surface_search cs)"

text \<open>\<^verbatim>\<open>float(match.group(1))\<close>\<close>

definition float_of_group :: "string \<times> string \<Rightarrow> real" where
  "float_of_group g =
     real (digits_val (fst g)) + real (digits_val (snd g)) / 10 ^ length (snd g)"

text \<open>\<^verbatim>\<open>extract_surface\<close>, lines 161-175.\<close>

definition extract_surface :: "cell \<Rightarrow> fcell" where
  "extract_surface surface_str =
     (case surface_str of
        CNaN \<Rightarrow> None
      | CStr s \<Rightarrow>
          (case surface_search (strip_brackets s) of
             Some g \<Rightarrow> Some (float_of_group g)
           | None \<Rightarrow> None)
      | CNum _ \<Rightarrow> None)"

text \<open>Lines 177-181: the column is extracted, then every value off the mask becomes NaN.\<close>

definition surface_mask :: "fcell \<Rightarrow> bool" where
  "surface_mask v = (ge_nan v 5 \<and> le_nan v 5000)"

definition clean_surface_row :: "listing \<Rightarrow> listing" where
  "clean_surface_row r =
     (let v = extract_surface (Surface r)
      in r\<lparr>CleanSurface := (if surface_mask v then v else None)\<rparr>)"

definition clean_surface :: "listing list \<Rightarrow> listing list" where
  "clean_surface df = map clean_surface_row df"

text \<open>\<^verbatim>\<open>re.search(r'(\d+)', s)\<close> and \<^verbatim>\<open>int(match.group(1))\<close>: the first run of digits.\<close>

definition parse_rooms :: "string \<Rightarrow> nat option" where
  "parse_rooms s =
     (let r = dropWhile (\<lambda>c. \<not> is_digit c) (strip_brackets s)
      in if r = [] then None else Some (digits_val (takeWhile is_digit r)))"

text \<open>\<^verbatim>\<open>extract_rooms\<close>, lines 232-248.\<close>

definition extract_rooms :: "cell \<Rightarrow> fcell" where
  "extract_rooms rooms_str =
     (case rooms_str of
        CNaN \<Rightarrow> None
      | CStr s \<Rightarrow>
          (case parse_rooms s of
             Some rooms \<Rightarrow> if 1 \<le> rooms \<and> rooms \<le> 20 then Some (real rooms) else None
           | None \<Rightarrow> None)
      | CNum _ \<Rightarrow> None)"

definition clean_rooms :: "listing list \<Rightarrow> listing list" where
  "clean_rooms df = map (\<lambda>r. r\<lparr>CleanRooms := extract_rooms (Rooms r)\<rparr>) df"

text \<open>
  A raw row with the given unit, region, surface and room cells; the columns the pipeline
  adds are still missing.
\<close>

definition raw_listing :: "scell \<Rightarrow> scell \<Rightarrow> cell \<Rightarrow> cell \<Rightarrow> listing" where
  "raw_listing u w s r =
     \<lparr>PriceUnit = u, Wilaya = w, TransactionType = Some ''Vente'', Surface = s, Rooms = r,
      NormalizedPrice = None, CleanSurface = None, CleanRooms = None\<rparr>"

section \<open>Derived feature: price per square metre\<close>

text \<open>
  The quotient of two float cells follows IEEE 754, so its result has a type of its own:
  dividing by zero gives NaN or an infinity, and a quotient too large for a double
  overflows to an infinity (rounding to nearest, that is a magnitude of at least
  (2 - 2^-53) * 2^1023). A quotient of smaller magnitude is kept as the exact real
  number: its rounding to the nearest double is not modelled, nor is the sign of a zero
  divisor (the code below treats both infinities alike).
\<close>

datatype fl = NaN | PInf | NInf | Fin real

definition overflow_threshold :: real where
  "overflow_threshold = (2 - 1 / 2 ^ 53) * 2 ^ 1023"

definition fdiv :: "fcell \<Rightarrow> fcell \<Rightarrow> fl" where
  "fdiv a b =
     (case (a, b) of
        (Some x, Some y) \<Rightarrow>
          if y = 0 then (if x = 0 then NaN else if 0 < x then PInf else NInf)
          else if overflow_threshold \<le> x / y then PInf
          else if x / y \<le> - overflow_threshold then NInf
          else Fin (x / y)
      | _ \<Rightarrow> NaN)"

text \<open>
  Root pipeline, lines 321-325 of \<^verbatim>\<open>clean_real_estate_data\<close>:
  \<^verbatim>\<open>np.where(surface.notna() & (surface > 0), price / surface, np.nan)\<close>.
\<close>

definition price_per_sqm :: "fcell \<Rightarrow> fcell \<Rightarrow> fl" where
  "price_per_sqm price surface =
     (if \<not> isna surface \<and> gt_nan surface 0 then fdiv price surface else NaN)"


text \<open>
  Platform pipeline, lines 196-197 of \<^verbatim>\<open>add_derived_features\<close>: the two columns are
  divided, then \<^verbatim>\<open>replace([np.inf, -np.inf], np.nan)\<close>.
\<close>

definition replace_inf :: "fl \<Rightarrow> fl" where
  "replace_inf v = (if v = PInf \<or> v = NInf then NaN else v)"

definition add_derived_features_cell :: "fcell \<Rightarrow> fcell \<Rightarrow> fl" where
  "add_derived_features_cell price surface = replace_inf (fdiv price surface)"


section \<open>Platform pipeline: data frames\<close>

text \<open>
  A data frame is the list of its named columns, in order. A column read from the
  listings file has a float dtype or the object dtype (text); other dtypes are not
  modelled. All columns of a frame have the same length.
\<close>

datatype column = NumCol "fcell list" | ObjCol "scell list"

type_synonym frame = "(string \<times> column) list"

datatype error = KeyError | IndexError | ValueError | TypeError | UnboundLocalError
  | NotFittedError | FitError

definition isnull :: "column \<Rightarrow> bool list" where
  "isnull c = (case c of NumCol xs \<Rightarrow> map isna xs | ObjCol xs \<Rightarrow> map isna xs)"

definition col_length :: "column \<Rightarrow> nat" where
  "col_length c = length (isnull c)"

definition nrows :: "frame \<Rightarrow> nat" where
  "nrows df = (case df of [] \<Rightarrow> 0 | (_, c) # _ \<Rightarrow> col_length c)"

definition wf_frame :: "frame \<Rightarrow> bool" where
  "wf_frame df = (distinct (map fst df) \<and> (\<forall>(n, c) \<in> set df. col_length c = nrows df))"

definition select :: "bool list \<Rightarrow> 'a list \<Rightarrow> 'a list" where
  "select keep xs = map snd (filter fst (zip keep xs))"

definition select_col :: "bool list \<Rightarrow> column \<Rightarrow> column" where
  "select_col keep c =
     (case c of NumCol xs \<Rightarrow> NumCol (select keep xs) | ObjCol xs \<Rightarrow> ObjCol (select keep xs))"

text \<open>\<^verbatim>\<open>df[mask]\<close>: the rows where the mask is true.\<close>

definition filter_rows :: "bool list \<Rightarrow> frame \<Rightarrow> frame" where
  "filter_rows keep df = map (\<lambda>(n, c). (n, select_col keep c)) df"

text \<open>\<^verbatim>\<open>df[name] = c\<close>: replaces the column in place, or appends a new one.\<close>

fun set_col :: "string \<Rightarrow> column \<Rightarrow> frame \<Rightarrow> frame" where
  "set_col name c [] = [(name, c)]"
| "set_col name c ((n, d) # df) = (if n = name then (n, c) # df else (n, d) # set_col name c df)"

section \<open>Platform pipeline: range filters\<close>

text \<open>
  \<^verbatim>\<open>filter_realistic_prices\<close>, lines 115-122. Comparing a text cell with a number raises
  TypeError; the comparisons of a missing cell are false.
\<close>

definition filter_realistic_prices :: "frame \<Rightarrow> string \<Rightarrow> real \<Rightarrow> real \<Rightarrow> error + frame" where
  "filter_realistic_prices df price_column min_price max_price =
     (case map_of df price_column of
        None \<Rightarrow> Inl KeyError
      | Some (NumCol xs) \<Rightarrow>
          Inr (filter_rows (map (\<lambda>x. ge_nan x min_price \<and> le_nan x max_price) xs) df)
      | Some (ObjCol xs) \<Rightarrow>
          if \<exists>x \<in> set xs. x \<noteq> None then Inl TypeError
          else Inr (filter_rows (map (\<lambda>x. False) xs) df))"

text \<open>
  \<^verbatim>\<open>extract_surface_info\<close>, lines 124-137. \<^verbatim>\<open>pd.to_numeric(..., errors='coerce')\<close> is
  pandas' number parser, a parameter here: it gives NaN for text that is no number.
\<close>

definition coerce_numeric :: "(string \<Rightarrow> fcell) \<Rightarrow> column \<Rightarrow> fcell list" where
  "coerce_numeric to_numeric c =
     (case c of
        NumCol xs \<Rightarrow> xs
      | ObjCol xs \<Rightarrow> map (\<lambda>x. case x of None \<Rightarrow> None | Some s \<Rightarrow> to_numeric s) xs)"

definition extract_surface_info :: "(string \<Rightarrow> fcell) \<Rightarrow> frame \<Rightarrow> frame" where
  "extract_surface_info to_numeric df =
     (case map_of df ''Surface'' of
        None \<Rightarrow> df
      | Some c \<Rightarrow>
          (let xs = coerce_numeric to_numeric c;
               df1 = set_col ''Surface'' (NumCol xs) df
           in filter_rows (map (\<lambda>x. isna x \<or> (ge_nan x 5 \<and> le_nan x 10000)) xs) df1))"

section \<open>Platform pipeline: the strategy selector\<close>

text \<open>
  The strategy names of \<^verbatim>\<open>AdvancedImputer\<close> and the scikit-learn imputers it builds, with
  the constructor arguments the code gives them.
\<close>

datatype strategy = Auto | Simple | Knn | Iterative | Mode

datatype simple_strategy = Mean | Median | MostFrequent

datatype weights = Uniform | Distance

datatype estimator = RandomForestRegressor (n_estimators: nat) (estimator_random_state: nat)

datatype imputer =
    SimpleImputer simple_strategy
  | KNNImputer (n_neighbors: nat) weights
  | IterativeImputer estimator (max_iter: nat) (random_state: nat)

definition null_count :: "column \<Rightarrow> nat" where
  "null_count c = length (filter (\<lambda>b. b) (isnull c))"

text \<open>
  \<^verbatim>\<open>(df[column].isnull().sum() / len(df)) * 100\<close>. The count is a numpy integer, so on an
  empty frame the quotient is NaN, not an exception.
\<close>

definition missing_percentage :: "column \<Rightarrow> frame \<Rightarrow> fcell" where
  "missing_percentage c df =
     (if nrows df = 0 then None else Some (real (null_count c) / real (nrows df) * 100))"

text \<open>\<^verbatim>\<open>len(df.dropna())\<close>: the rows with no missing value in any column.\<close>

definition null_rows :: "frame \<Rightarrow> bool list" where
  "null_rows df =
     foldr (\<lambda>(n, c) acc. map (\<lambda>(a, b). a \<or> b) (zip (isnull c) acc)) df
       (replicate (nrows df) False)"

definition complete_rows :: "frame \<Rightarrow> nat" where
  "complete_rows df = length (filter (\<lambda>b. \<not> b) (null_rows df))"

text \<open>\<^verbatim>\<open>int(np.sqrt(n))\<close> for a row count \<open>n\<close>.\<close>

fun floor_sqrt :: "nat \<Rightarrow> nat" where
  "floor_sqrt 0 = 0"
| "floor_sqrt (Suc n) =
     (let r = floor_sqrt n in if (r + 1) * (r + 1) \<le> Suc n then r + 1 else r)"

text \<open>
  \<^verbatim>\<open>smart_impute_numerical\<close>, lines 63-104. \<^verbatim>\<open>Series.skew\<close> is pandas' sample skewness,
  a parameter here (NaN for a column with too few values); it raises on a text column.
  With a strategy name that no branch handles, \<^verbatim>\<open>imputer\<close> is unbound at the return.
\<close>

definition smart_impute_numerical ::
  "(fcell list \<Rightarrow> fcell) \<Rightarrow> frame \<Rightarrow> string \<Rightarrow> strategy \<Rightarrow> error + (imputer \<times> strategy)" where
  "smart_impute_numerical skew df column strategy0 =
     (case map_of df column of
        None \<Rightarrow> Inl KeyError
      | Some c \<Rightarrow>
          (let missing_percentage = missing_percentage c df;
               strategy =
                 (if strategy0 = Auto
                  then (if lt_nan missing_percentage 5 then Simple
                        else if lt_nan missing_percentage 20 then Knn
                        else Iterative)
                  else strategy0)
           in if strategy = Simple then
                (case c of
                   ObjCol _ \<Rightarrow> Inl TypeError
                 | NumCol xs \<Rightarrow>
                     if gt_nan (map_option abs (skew xs)) 1
                     then Inr (SimpleImputer Median, strategy)
                     else Inr (SimpleImputer Mean, strategy))
              else if strategy = Knn then
                Inr (KNNImputer (min 5 (max 3 (floor_sqrt (complete_rows df)))) Distance, strategy)
              else if strategy = Iterative then
                Inr (IterativeImputer (RandomForestRegressor 10 42) 10 42, strategy)
              else Inl UnboundLocalError))"

text \<open>\<^verbatim>\<open>smart_impute_categorical\<close>, lines 106-124.\<close>

definition smart_impute_categorical ::
  "frame \<Rightarrow> string \<Rightarrow> strategy \<Rightarrow> error + (imputer \<times> strategy)" where
  "smart_impute_categorical df column strategy0 =
     (case map_of df column of
        None \<Rightarrow> Inl KeyError
      | Some c \<Rightarrow>
          (let missing_percentage = missing_percentage c df;
               strategy =
                 (if strategy0 = Auto
                  then (if lt_nan missing_percentage 10 then Mode else Knn)
                  else strategy0)
           in if strategy = Mode then Inr (SimpleImputer MostFrequent, strategy)
              else if strategy = Knn then Inr (KNNImputer 5 Uniform, strategy)
              else Inl UnboundLocalError))"

section \<open>The scikit-learn imputers\<close>

text \<open>
  scikit-learn is a library, not code of this repository, and its estimators are not
  modelled. What the pipeline relies on is the documented shape of \<^verbatim>\<open>fit_transform\<close> of
  \<^verbatim>\<open>SimpleImputer\<close>, \<^verbatim>\<open>KNNImputer\<close> and \<^verbatim>\<open>IterativeImputer\<close>: fitting either raises or yields
  a fill-in value for every missing cell; the transformed matrix keeps every observed
  cell as it is, has no missing cell, and (with the default \<^verbatim>\<open>keep_empty_features=False\<close>)
  leaves out every column that has no observed value. The fitting itself is the
  parameter \<open>fit\<close>: for an imputer and a matrix it gives an error or the fill-in value of
  column \<open>j\<close>, row \<open>i\<close>. A matrix is the list of its columns.
\<close>

type_synonym matrix = "fcell list list"

type_synonym fitter = "imputer \<Rightarrow> matrix \<Rightarrow> error + (nat \<Rightarrow> nat \<Rightarrow> real)"

definition fill_column :: "(nat \<Rightarrow> real) \<Rightarrow> fcell list \<Rightarrow> real list" where
  "fill_column est xs =
     map (\<lambda>(i, x). case x of Some v \<Rightarrow> v | None \<Rightarrow> est i) (enumerate 0 xs)"

definition has_observed :: "fcell list \<Rightarrow> bool" where
  "has_observed xs = (\<exists>x \<in> set xs. x \<noteq> None)"

definition sk_transform :: "(nat \<Rightarrow> nat \<Rightarrow> real) \<Rightarrow> matrix \<Rightarrow> real list list" where
  "sk_transform est X =
     map (\<lambda>(j, xs). fill_column (est j) xs)
       (filter (\<lambda>(j, xs). has_observed xs) (enumerate 0 X))"

definition sk_fit_transform :: "fitter \<Rightarrow> imputer \<Rightarrow> matrix \<Rightarrow> error + real list list" where
  "sk_fit_transform fit imp X =
     (case fit imp X of Inl e \<Rightarrow> Inl e | Inr est \<Rightarrow> Inr (sk_transform est X))"

text \<open>
  \<^verbatim>\<open>LabelEncoder\<close>: the classes are the sorted distinct values, the code of a value is
  its position among them. \<^verbatim>\<open>inverse_transform\<close> raises on a code that is no position.
\<close>

fun index_of :: "'a \<Rightarrow> 'a list \<Rightarrow> nat" where
  "index_of x [] = 0"
| "index_of x (y # ys) = (if x = y then 0 else Suc (index_of x ys))"

definition classes :: "string list \<Rightarrow> string list" where
  "classes xs = sort (remdups xs)"

definition label_encode :: "string list \<Rightarrow> nat list" where
  "label_encode xs = map (\<lambda>x. index_of x (classes xs)) xs"

text \<open>\<^verbatim>\<open>Series.median\<close>: the median of the observed values, NaN when there is none.\<close>

definition observed :: "fcell list \<Rightarrow> real list" where
  "observed xs = map the (filter (\<lambda>x. x \<noteq> None) xs)"

definition median :: "fcell list \<Rightarrow> fcell" where
  "median xs =
     (let s = sort (observed xs); n = length s
      in if n = 0 then None
         else if odd n then Some (s ! (n div 2))
         else Some ((s ! (n div 2 - 1) + s ! (n div 2)) / 2))"

text \<open>\<^verbatim>\<open>Series.unique\<close>: the distinct values in the order of their first appearance.\<close>

definition unique :: "'a list \<Rightarrow> 'a list" where
  "unique xs = rev (remdups (rev xs))"

section \<open>Root pipeline: surface imputation (step 7)\<close>

text \<open>\<^verbatim>\<open>astype(str)\<close> turns a missing value into the text \<^verbatim>\<open>nan\<close>.\<close>

definition astype_str :: "scell \<Rightarrow> string" where
  "astype_str x = (case x of None \<Rightarrow> ''nan'' | Some s \<Rightarrow> s)"

text \<open>\<^verbatim>\<open>df['Wilaya'] == wilaya\<close>: NaN is equal to nothing.\<close>

definition eq_nan :: "scell \<Rightarrow> scell \<Rightarrow> bool" where
  "eq_nan a b = (a \<noteq> None \<and> a = b)"

text \<open>\<^verbatim>\<open>imputation_data.dropna().shape[0]\<close>: the number of rows complete in all columns.\<close>

definition matrix_null_rows :: "matrix \<Rightarrow> nat \<Rightarrow> bool list" where
  "matrix_null_rows X n =
     foldr (\<lambda>c acc. map (\<lambda>(a, b). a \<or> b) (zip (map isna c) acc)) X (replicate n False)"

definition available_features :: "listing list \<Rightarrow> matrix" where
  "available_features df =
     filter (\<lambda>c. \<not> list_all isna c)
       [map NormalizedPrice df,
        map (\<lambda>k. Some (real k)) (label_encode (map (astype_str \<circ> Wilaya) df)),
        map (\<lambda>k. Some (real k)) (label_encode (map (astype_str \<circ> TransactionType) df))]"

definition imputation_data :: "listing list \<Rightarrow> matrix" where
  "imputation_data df = available_features df @ [map CleanSurface df]"

definition surface_complete_rows :: "listing list \<Rightarrow> nat" where
  "surface_complete_rows df =
     length (filter (\<lambda>b. \<not> b) (matrix_null_rows (imputation_data df) (length df)))"

text \<open>Lines 218-222: one round of the loop over the regions.\<close>

definition wilaya_median_surface :: "listing list \<Rightarrow> scell \<Rightarrow> fcell" where
  "wilaya_median_surface df wilaya =
     median (map CleanSurface (filter (\<lambda>r. eq_nan (Wilaya r) wilaya) df))"

definition wilaya_step :: "bool list \<Rightarrow> listing list \<Rightarrow> scell \<Rightarrow> listing list" where
  "wilaya_step surface_missing_mask df wilaya =
     (case wilaya_median_surface df wilaya of
        None \<Rightarrow> df
      | Some m \<Rightarrow>
          map (\<lambda>(missing, r).
                 if eq_nan (Wilaya r) wilaya \<and> missing then r\<lparr>CleanSurface := Some m\<rparr> else r)
            (zip surface_missing_mask df))"

definition wilaya_median_fill :: "bool list \<Rightarrow> listing list \<Rightarrow> listing list" where
  "wilaya_median_fill surface_missing_mask df =
     foldl (wilaya_step surface_missing_mask) df (unique (map Wilaya df))"

text \<open>Lines 225-227.\<close>

definition global_median_fill :: "listing list \<Rightarrow> listing list" where
  "global_median_fill df =
     (case median (map CleanSurface df) of
        None \<Rightarrow> df
      | Some m \<Rightarrow> map (\<lambda>r. if isna (CleanSurface r) then r\<lparr>CleanSurface := Some m\<rparr> else r) df)"

text \<open>
  Lines 186-227. The k-nearest-neighbour branch writes the last column of the imputed
  matrix back; an error of the imputer is not caught.
\<close>

definition impute_surface :: "fitter \<Rightarrow> listing list \<Rightarrow> error + listing list" where
  "impute_surface fit df =
     (let surface_missing_mask = map (\<lambda>r. isna (CleanSurface r)) df
      in if 0 < length (filter (\<lambda>b. b) surface_missing_mask) then
           if 0 < length (available_features df) then
             if 10 < surface_complete_rows df then
               (case sk_fit_transform fit (KNNImputer 5 Uniform) (imputation_data df) of
                  Inl e \<Rightarrow> Inl e
                | Inr imputed_data \<Rightarrow>
                    if imputed_data = [] then Inl IndexError
                    else if length (last imputed_data) \<noteq> length df then Inl ValueError
                    else Inr (map (\<lambda>(r, v). r\<lparr>CleanSurface := Some v\<rparr>)
                                (zip df (last imputed_data))))
             else Inr (global_median_fill (wilaya_median_fill surface_missing_mask df))
           else Inr df
         else Inr df)"

text \<open>
  The state of the loop over the regions once the regions in \<open>D\<close> are done, row by
  row (used to reason about the loop).
\<close>

definition partial_fill :: "listing list \<Rightarrow> scell list \<Rightarrow> listing \<Rightarrow> listing" where
  "partial_fill df D r =
     (if isna (CleanSurface r) \<and> (\<exists>w \<in> set D. eq_nan (Wilaya r) w)
      then (case wilaya_median_surface df (Wilaya r) of
              None \<Rightarrow> r
            | Some m \<Rightarrow> r\<lparr>CleanSurface := Some m\<rparr>)
      else r)"

text \<open>
  The scenario of a numeric column with 15 percent missing and 6 complete rows: 20 rows
  after step 6, three of them without a surface, six with both a price and a surface.
\<close>

definition surface_row :: "string \<Rightarrow> fcell \<Rightarrow> fcell \<Rightarrow> listing" where
  "surface_row w p s =
     \<lparr>PriceUnit = Some ''UNIT'', Wilaya = Some w, TransactionType = Some ''Vente'',
      Surface = CNaN, Rooms = CNaN, NormalizedPrice = p, CleanSurface = s, CleanRooms = None\<rparr>"

definition scenario_table :: "listing list" where
  "scenario_table =
     [surface_row ''Alger'' (Some 9000000) (Some 80),
      surface_row ''Alger'' (Some 12000000) (Some 100),
      surface_row ''Alger'' (Some 15000000) (Some 120),
      surface_row ''Oran'' (Some 5000000) (Some 50),
      surface_row ''Oran'' (Some 7000000) (Some 70),
      surface_row ''Oran'' (Some 9000000) (Some 90),
      surface_row ''Alger'' None (Some 60),
      surface_row ''Alger'' None (Some 65),
      surface_row ''Alger'' None (Some 100),
      surface_row ''Alger'' None (Some 110),
      surface_row ''Alger'' None (Some 150),
      surface_row ''Oran'' None (Some 40),
      surface_row ''Oran'' None (Some 45),
      surface_row ''Oran'' None (Some 55),
      surface_row ''Oran'' None (Some 60),
      surface_row ''Oran'' None (Some 75),
      surface_row ''Oran'' None (Some 95),
      surface_row ''Alger'' (Some 11000000) None,
      surface_row ''Oran'' None None,
      surface_row ''Adrar'' (Some 3000000) None]"

section \<open>Platform pipeline: the imputation engine\<close>

text \<open>
  The library functions the engine calls: pandas' skewness, the fitting of a
  scikit-learn imputer on a numeric matrix, and the most frequent value that
  \<^verbatim>\<open>SimpleImputer(strategy='most_frequent')\<close> finds among the observed text values.
\<close>

record library =
  lib_skew :: "fcell list \<Rightarrow> fcell"
  lib_fit :: fitter
  lib_most_frequent :: "string list \<Rightarrow> string"

text \<open>The state of an \<^verbatim>\<open>AdvancedImputer\<close> object. A label encoder is kept by its classes.\<close>

record col_stats =
  strategy_used :: strategy
  missing_before :: nat
  missing_after :: nat

record missing_info =
  missing_count :: nat
  missing_pct :: fcell
  data_type :: string
  unique_values :: nat

record AdvancedImputer =
  numerical_imputers :: "(string \<times> imputer) list"
  categorical_imputers :: "(string \<times> imputer) list"
  label_encoders :: "(string \<times> string list) list"
  imputation_stats :: "(string \<times> col_stats) list"
  missing_analysis :: "(string \<times> missing_info) list"
  recommendations :: "(string \<times> string) list"

definition new_AdvancedImputer :: AdvancedImputer where
  "new_AdvancedImputer =
     \<lparr>numerical_imputers = [], categorical_imputers = [], label_encoders = [],
      imputation_stats = [], missing_analysis = [], recommendations = []\<rparr>"

text \<open>\<^verbatim>\<open>d[k] = v\<close> on a dictionary kept in insertion order.\<close>

fun dict_set :: "'k \<Rightarrow> 'v \<Rightarrow> ('k \<times> 'v) list \<Rightarrow> ('k \<times> 'v) list" where
  "dict_set k v [] = [(k, v)]"
| "dict_set k v ((k', v') # d) = (if k' = k then (k, v) # d else (k', v') # dict_set k v d)"

text \<open>\<^verbatim>\<open>analyze_missing_data\<close>, lines 29-61.\<close>

definition dtype :: "column \<Rightarrow> string" where
  "dtype c = (case c of NumCol _ \<Rightarrow> ''float64'' | ObjCol _ \<Rightarrow> ''object'')"

definition nunique :: "column \<Rightarrow> nat" where
  "nunique c =
     (case c of
        NumCol xs \<Rightarrow> length (remdups (filter (\<lambda>x. x \<noteq> None) xs))
      | ObjCol xs \<Rightarrow> length (remdups (filter (\<lambda>x. x \<noteq> None) xs)))"

definition recommendation :: "fcell \<Rightarrow> string" where
  "recommendation pct =
     (if pct = Some 0 then ''No missing values''
      else if lt_nan pct 5 then ''Simple imputation (mean/mode) sufficient''
      else if lt_nan pct 20 then ''KNN or Iterative imputation recommended''
      else if lt_nan pct 50 then ''Advanced imputation with caution''
      else ''Consider dropping column or advanced ML imputation'')"

definition analyze_missing_data ::
  "frame \<Rightarrow> (string \<times> missing_info) list \<times> (string \<times> string) list" where
  "analyze_missing_data df =
     (let missing_info =
            map (\<lambda>(column, c).
                   (column, \<lparr>missing_count = null_count c,
                             missing_pct = missing_percentage c df,
                             data_type = dtype c,
                             unique_values = nunique c\<rparr>)) df
      in (missing_info, map (\<lambda>(column, info). (column, recommendation (missing_pct info)))
                          missing_info))"

text \<open>\<^verbatim>\<open>select_dtypes\<close>: the numeric columns and the object columns of a frame.\<close>

definition is_numeric :: "column \<Rightarrow> bool" where
  "is_numeric c = (case c of NumCol _ \<Rightarrow> True | ObjCol _ \<Rightarrow> False)"

definition numerical_subset :: "frame \<Rightarrow> frame" where
  "numerical_subset df = filter (\<lambda>(n, c). is_numeric c) df"

definition categorical_subset :: "frame \<Rightarrow> frame" where
  "categorical_subset df = filter (\<lambda>(n, c). \<not> is_numeric c) df"

definition num_values :: "column \<Rightarrow> fcell list" where
  "num_values c = (case c of NumCol xs \<Rightarrow> xs | ObjCol xs \<Rightarrow> map (\<lambda>x. None) xs)"

definition obj_values :: "column \<Rightarrow> scell list" where
  "obj_values c = (case c of ObjCol xs \<Rightarrow> xs | NumCol xs \<Rightarrow> map (\<lambda>x. None) xs)"

definition isnull_any :: "frame \<Rightarrow> string \<Rightarrow> bool" where
  "isnull_any df column = (case map_of df column of None \<Rightarrow> False | Some c \<Rightarrow> 0 < null_count c)"

text \<open>
  A \<^verbatim>\<open>for\<close> loop whose body may raise: the loop stops at the first error, and the state
  is what the body had made of it by then.
\<close>

fun for_each :: "('s \<Rightarrow> 'a \<Rightarrow> 's \<times> error option) \<Rightarrow> 'a list \<Rightarrow> 's \<Rightarrow> 's \<times> error option" where
  "for_each body [] s = (s, None)"
| "for_each body (x # xs) s =
     (case body s x of
        (s', Some e) \<Rightarrow> (s', Some e)
      | (s', None) \<Rightarrow> for_each body xs s')"

text \<open>
  The body of the loop over the numerical columns, lines 149-172. \<open>df\<close> is the frame the
  caller passed, \<open>df_imputed\<close> the frame being filled; they are the same object when
  \<^verbatim>\<open>preserve_original\<close> is false.
\<close>

definition record_numerical ::
  "(string \<times> missing_info) list \<Rightarrow> string \<Rightarrow> imputer \<Rightarrow> strategy \<Rightarrow> frame
     \<Rightarrow> AdvancedImputer \<Rightarrow> AdvancedImputer" where
  "record_numerical info column imp strategy df_imputed self =
     self\<lparr>numerical_imputers := dict_set column imp (numerical_imputers self),
          imputation_stats :=
            dict_set column
              \<lparr>strategy_used = strategy,
               missing_before = (case map_of info column of None \<Rightarrow> 0 | Some i \<Rightarrow> missing_count i),
               missing_after = (case map_of df_imputed column of None \<Rightarrow> 0 | Some c \<Rightarrow> null_count c)\<rparr>
              (imputation_stats self)\<rparr>"

definition numerical_body ::
  "library \<Rightarrow> frame \<Rightarrow> bool \<Rightarrow> (string \<times> missing_info) list \<Rightarrow> string list
     \<Rightarrow> frame \<times> AdvancedImputer \<Rightarrow> string \<Rightarrow> (frame \<times> AdvancedImputer) \<times> error option" where
  "numerical_body L df0 preserve_original info numerical_cols s column =
     (let df_imputed = fst s; self = snd s;
          df = (if preserve_original then df0 else df_imputed)
      in if column \<in> set numerical_cols \<and> isnull_any df column then
           (case smart_impute_numerical (lib_skew L) df_imputed column Auto of
              Inl e \<Rightarrow> (s, Some e)
            | Inr (imp, strategy) \<Rightarrow>
                if strategy = Knn \<or> strategy = Iterative then
                  (let num_subset = numerical_subset df_imputed
                   in case sk_fit_transform (lib_fit L) imp (map (num_values \<circ> snd) num_subset) of
                        Inl e \<Rightarrow> (s, Some e)
                      | Inr imputed_values \<Rightarrow>
                          (let col_index = index_of column (map fst num_subset)
                           in if col_index < length imputed_values then
                                (let df' = set_col column
                                             (NumCol (map Some (imputed_values ! col_index)))
                                             df_imputed
                                 in ((df', record_numerical info column imp strategy df' self),
                                     None))
                              else (s, Some IndexError)))
                else
                  (case sk_fit_transform (lib_fit L) imp
                          [case map_of df_imputed column of None \<Rightarrow> [] | Some c \<Rightarrow> num_values c] of
                     Inl e \<Rightarrow> (s, Some e)
                   | Inr imputed_values \<Rightarrow>
                       (let ravel = concat imputed_values
                        in if length ravel = nrows df_imputed then
                             (let df' = set_col column (NumCol (map Some ravel)) df_imputed
                              in ((df', record_numerical info column imp strategy df' self),
                                  None))
                           else (s, Some ValueError))))
         else (s, None))"

text \<open>
  Label encoding of the object columns, lines 187-196: every column with an observed
  value is encoded by an encoder fitted on its observed values; the missing cells stay
  missing.
\<close>

definition observed_text :: "scell list \<Rightarrow> string list" where
  "observed_text xs = map the (filter (\<lambda>x. x \<noteq> None) xs)"

definition encode_column :: "scell list \<Rightarrow> fcell list" where
  "encode_column xs =
     map (map_option (\<lambda>s. real (index_of s (classes (observed_text xs))))) xs"

definition fit_label_encoders ::
  "frame \<Rightarrow> (string \<times> string list) list \<Rightarrow> (string \<times> string list) list" where
  "fit_label_encoders cat_subset encoders =
     foldl (\<lambda>enc (cat_col, c).
              if observed_text (obj_values c) \<noteq> []
              then dict_set cat_col (classes (observed_text (obj_values c))) enc
              else enc) encoders cat_subset"

text \<open>\<^verbatim>\<open>np.round(x).astype(int)\<close>: rounding to the nearest integer, a half to the even one.\<close>

definition rint :: "real \<Rightarrow> int" where
  "rint x =
     (let f = \<lfloor>x\<rfloor>; d = x - of_int f
      in if d < 1 / 2 then f else if 1 / 2 < d then f + 1 else if even f then f else f + 1)"

definition inverse_transform :: "string list \<Rightarrow> int list \<Rightarrow> error + string list" where
  "inverse_transform cls ks =
     (if \<forall>k \<in> set ks. 0 \<le> k \<and> k < int (length cls)
      then Inr (map (\<lambda>k. cls ! nat k) ks)
      else Inl ValueError)"

definition record_categorical ::
  "(string \<times> missing_info) list \<Rightarrow> string \<Rightarrow> imputer \<Rightarrow> strategy \<Rightarrow> frame
     \<Rightarrow> AdvancedImputer \<Rightarrow> AdvancedImputer" where
  "record_categorical info column imp strategy df_imputed self =
     self\<lparr>categorical_imputers := dict_set column imp (categorical_imputers self),
          imputation_stats :=
            dict_set column
              \<lparr>strategy_used = strategy,
               missing_before = (case map_of info column of None \<Rightarrow> 0 | Some i \<Rightarrow> missing_count i),
               missing_after = (case map_of df_imputed column of None \<Rightarrow> 0 | Some c \<Rightarrow> null_count c)\<rparr>
              (imputation_stats self)\<rparr>"

text \<open>The body of the loop over the categorical columns, lines 176-220.\<close>

definition categorical_body ::
  "library \<Rightarrow> frame \<Rightarrow> bool \<Rightarrow> (string \<times> missing_info) list \<Rightarrow> string list
     \<Rightarrow> frame \<times> AdvancedImputer \<Rightarrow> string \<Rightarrow> (frame \<times> AdvancedImputer) \<times> error option" where
  "categorical_body L df0 preserve_original info categorical_cols s column =
     (let df_imputed = fst s; self = snd s;
          df = (if preserve_original then df0 else df_imputed)
      in if column \<in> set categorical_cols \<and> isnull_any df column then
           (case smart_impute_categorical df_imputed column Auto of
              Inl e \<Rightarrow> (s, Some e)
            | Inr (imp, strategy) \<Rightarrow>
                if strategy = Knn then
                  (let cat_subset = categorical_subset df_imputed;
                       self1 = self\<lparr>label_encoders :=
                                      fit_label_encoders cat_subset (label_encoders self)\<rparr>;
                       encoded_data = map (encode_column \<circ> obj_values \<circ> snd) cat_subset
                   in case sk_fit_transform (lib_fit L) imp encoded_data of
                        Inl e \<Rightarrow> ((df_imputed, self1), Some e)
                      | Inr imputed_encoded \<Rightarrow>
                          (let col_index = index_of column (map fst cat_subset)
                           in if col_index < length imputed_encoded then
                                (let imputed_column = map rint (imputed_encoded ! col_index)
                                 in case map_of (label_encoders self1) column of
                                      None \<Rightarrow> ((df_imputed, self1), Some NotFittedError)
                                    | Some cls \<Rightarrow>
                                        (case inverse_transform cls imputed_column of
                                           Inl e \<Rightarrow> ((df_imputed, self1), Some e)
                                         | Inr labels \<Rightarrow>
                                             (let df' = set_col column (ObjCol (map Some labels))
                                                          df_imputed
                                              in ((df', record_categorical info column imp
                                                          strategy df' self1), None))))
                              else ((df_imputed, self1), Some IndexError)))
                else
                  (let xs = (case map_of df_imputed column of
                               None \<Rightarrow> [] | Some c \<Rightarrow> obj_values c);
                       ravel = (if observed_text xs = [] then []
                                else map (\<lambda>x. case x of
                                                 Some v \<Rightarrow> v
                                               | None \<Rightarrow> lib_most_frequent L (observed_text xs)) xs)
                   in if length ravel = nrows df_imputed then
                        (let df' = set_col column (ObjCol (map Some ravel)) df_imputed
                         in ((df', record_categorical info column imp strategy df' self), None))
                      else (s, Some ValueError)))
         else (s, None))"

text \<open>
  \<^verbatim>\<open>fit_transform\<close>, lines 126-222. The result is the state at the end, or at the error:
  the frame being filled and the imputer object. Without an error the method returns
  that frame.
\<close>

definition fit_transform ::
  "library \<Rightarrow> AdvancedImputer \<Rightarrow> frame \<Rightarrow> string list option \<Rightarrow> bool
     \<Rightarrow> (frame \<times> AdvancedImputer) \<times> error option" where
  "fit_transform L self df target_columns preserve_original =
     (let targets = (case target_columns of
                       None \<Rightarrow> map fst (filter (\<lambda>(n, c). 0 < null_count c) df)
                     | Some t \<Rightarrow> t);
          analysis = analyze_missing_data df;
          self1 = self\<lparr>missing_analysis := fst analysis, recommendations := snd analysis\<rparr>;
          numerical_cols = map fst (numerical_subset df);
          categorical_cols = map fst (categorical_subset df);
          r = for_each (numerical_body L df preserve_original (fst analysis) numerical_cols)
                targets (df, self1)
      in case snd r of
           Some e \<Rightarrow> r
         | None \<Rightarrow>
             for_each (categorical_body L df preserve_original (fst analysis) categorical_cols)
               targets (fst r))"

text \<open>
  \<^verbatim>\<open>impute_real_estate_data\<close>, lines 257-283. Of the configuration only
  \<^verbatim>\<open>preserve_original\<close> is read; the dictionary \<^verbatim>\<open>real_estate_columns\<close> is built and not
  used. The first component of the result is the caller's frame after the call (the
  frame is filled in place when \<^verbatim>\<open>preserve_original\<close> is false), the second what the
  call returns or raises.
\<close>

record config =
  price_strategy :: strategy
  location_strategy :: strategy
  surface_strategy :: strategy
  rooms_strategy :: strategy
  preserve_original :: bool

definition default_config :: config where
  "default_config =
     \<lparr>price_strategy = Knn, location_strategy = Mode, surface_strategy = Iterative,
      rooms_strategy = Knn, preserve_original = True\<rparr>"

definition impute_real_estate_data ::
  "library \<Rightarrow> frame \<Rightarrow> config option \<Rightarrow> frame \<times> (error + frame \<times> AdvancedImputer)" where
  "impute_real_estate_data L df config0 =
     (let config = (case config0 of None \<Rightarrow> default_config | Some c \<Rightarrow> c);
          r = fit_transform L new_AdvancedImputer df None (preserve_original config)
      in (if preserve_original config then df else fst (fst r),
          case snd r of Some e \<Rightarrow> Inl e | None \<Rightarrow> Inr (fst r)))"

section \<open>Platform pipeline: the cleaning stage\<close>

text \<open>
  \<^verbatim>\<open>DataFrame.dropna(subset=..., how=...)\<close>: with \<^verbatim>\<open>how='all'\<close> the rows missing every
  column of the subset are dropped, with \<^verbatim>\<open>how='any'\<close> (the default) the rows missing
  at least one. A name of the subset that is no column raises KeyError.
\<close>

datatype how = Any | All

definition row_nulls :: "how \<Rightarrow> bool list list \<Rightarrow> nat \<Rightarrow> bool list" where
  "row_nulls h nulls n =
     (case h of
        Any \<Rightarrow> foldr (\<lambda>c acc. map (\<lambda>(a, b). a \<or> b) (zip c acc)) nulls (replicate n False)
      | All \<Rightarrow> foldr (\<lambda>c acc. map (\<lambda>(a, b). a \<and> b) (zip c acc)) nulls (replicate n True))"

definition dropna :: "string list \<Rightarrow> how \<Rightarrow> frame \<Rightarrow> error + frame" where
  "dropna names h df =
     (if \<forall>name \<in> set names. map_of df name \<noteq> None
      then Inr (filter_rows
                  (map Not (row_nulls h (map (\<lambda>name. isnull (the (map_of df name))) names)
                              (nrows df))) df)
      else Inl KeyError)"

definition critical_columns :: "string list" where
  "critical_columns = [''TransactionType'', ''Location'', ''Wilaya'', ''Price'']"

definition imputation_config :: config where
  "imputation_config =
     \<lparr>price_strategy = Knn, location_strategy = Mode, surface_strategy = Iterative,
      rooms_strategy = Knn, preserve_original = False\<rparr>"

text \<open>
  \<^verbatim>\<open>clean_data\<close>, lines 26-86. The report inside the \<^verbatim>\<open>try\<close> block only reads the
  statistics and prints. \<^verbatim>\<open>except Exception\<close> catches every error of the model.
\<close>

definition clean_data :: "library \<Rightarrow> frame \<Rightarrow> error + frame" where
  "clean_data L df0 =
     (case dropna critical_columns All df0 of
        Inl e \<Rightarrow> Inl e
      | Inr df \<Rightarrow>
          (case impute_real_estate_data L df (Some imputation_config) of
             (df', Inr (df_imputed, imputer)) \<Rightarrow> Inr df_imputed
           | (df', Inl e) \<Rightarrow> dropna critical_columns Any df'))"

section \<open>Example inputs\<close>

text \<open>
  Two stand-ins for the library: one whose imputers fill every missing cell with 0, and
  one whose imputers raise when they are fitted.
\<close>

definition zero_fill_library :: library where
  "zero_fill_library =
     \<lparr>lib_skew = (\<lambda>xs. None), lib_fit = (\<lambda>imp X. Inr (\<lambda>j i. 0)),
      lib_most_frequent = (\<lambda>xs. hd xs)\<rparr>"

definition failing_library :: library where
  "failing_library =
     \<lparr>lib_skew = (\<lambda>xs. None), lib_fit = (\<lambda>imp X. Inl FitError),
      lib_most_frequent = (\<lambda>xs. hd xs)\<rparr>"

text \<open>A frame whose first numeric column has no value at all.\<close>

definition empty_column_frame :: frame where
  "empty_column_frame =
     [(''A'', NumCol [None, None, None, None, None, None]),
      (''B'', NumCol [Some 1, Some 2, Some 3, Some 4, Some 5, Some 6]),
      (''C'', NumCol [Some 10, Some 20, Some 30, Some 40, Some 50, None]),
      (''D'', NumCol [Some 7, Some 7, Some 7, Some 7, Some 7, Some 8])]"

text \<open>Two listings, the second without a price and without a location.\<close>

definition two_listings :: frame where
  "two_listings =
     [(''Price'', NumCol [Some 5000000, None]),
      (''Location'', ObjCol [Some ''Alger'', None])]"

text \<open>Two listings with all critical columns, the second without a location.\<close>

definition critical_frame :: frame where
  "critical_frame =
     [(''TransactionType'', ObjCol [Some ''Vente'', Some ''Vente'']),
      (''Location'', ObjCol [Some ''Alger'', None]),
      (''Wilaya'', ObjCol [Some ''Alger'', Some ''Alger'']),
      (''Price'', NumCol [Some 5000000, Some 7000000])]"

text \<open>\<^verbatim>\<open>name in df.columns\<close>\<close>

definition has_column :: "frame \<Rightarrow> string \<Rightarrow> bool" where
  "has_column df name = (map_of df name \<noteq> None)"

text \<open>
  A stand-in for the library whose k-nearest-neighbour imputer raises and whose other
  imputers fill with 0; and three listings: one complete, one without a price, one
  without a location.
\<close>

definition knn_failing_library :: library where
  "knn_failing_library =
     \<lparr>lib_skew = (\<lambda>xs. None),
      lib_fit = (\<lambda>imp X. case imp of KNNImputer k w \<Rightarrow> Inl FitError | _ \<Rightarrow> Inr (\<lambda>j i. 0)),
      lib_most_frequent = (\<lambda>xs. hd xs)\<rparr>"

definition three_listings :: frame where
  "three_listings =
     [(''TransactionType'', ObjCol [Some ''Vente'', Some ''Vente'', Some ''Vente'']),
      (''Location'', ObjCol [Some ''Alger'', Some ''Oran'', None]),
      (''Wilaya'', ObjCol [Some ''Alger'', Some ''Oran'', Some ''Oran'']),
      (''Price'', NumCol [Some 5000000, None, Some 7000000])]"

section \<open>Properties of price normalisation\<close>

text \<open>
  C4. Price normalisation returns missing when the raw price is absent or non-positive;
  otherwise the raw price times 1,000,000 for the unit tag MILLION, times 1,000,000,000
  for BILLION, unchanged for UNIT and UNIT_PER_SQUARE, and times 1,000,000 for
  MILLION_PER_SQUARE.
\<close>

theorem normalize_price_units:
  "normalize_price None u = None
   \<and> (p \<le> 0 \<longrightarrow> normalize_price (Some p) u = None)
   \<and> (0 < p \<longrightarrow>
        normalize_price (Some p) (Some ''MILLION'') = Some (p * 1000000)
      \<and> normalize_price (Some p) (Some ''BILLION'') = Some (p * 1000000000)
      \<and> normalize_price (Some p) (Some ''UNIT'') = Some p
      \<and> normalize_price (Some p) (Some ''UNIT_PER_SQUARE'') = Some p
      \<and> normalize_price (Some p) (Some ''MILLION_PER_SQUARE'') = Some (p * 1000000))"
  by (simp add: normalize_price_def)

theorem normalize_price_units_witness:
  "normalize_price None (Some ''MILLION'') = None
   \<and> normalize_price (Some 0) (Some ''MILLION'') = None
   \<and> normalize_price (Some (5/2)) (Some ''MILLION'') = Some 2500000
   \<and> normalize_price (Some (5/2)) (Some ''BILLION'') = Some 2500000000
   \<and> normalize_price (Some (5/2)) (Some ''UNIT'') = Some (5/2)
   \<and> normalize_price (Some (5/2)) (Some ''UNIT_PER_SQUARE'') = Some (5/2)
   \<and> normalize_price (Some (5/2)) (Some ''MILLION_PER_SQUARE'') = Some 2500000"
  using normalize_price_units [of "Some ''MILLION''" "5/2"]
        normalize_price_units [of "Some ''MILLION''" 0]
  by simp

text \<open>
  C10. When the raw price is present and strictly positive and the unit tag is missing
  or is none of the five recognised tags, price normalisation returns the raw price
  unchanged; the value is not treated as missing.
\<close>

theorem normalize_price_unknown_unit:
  "0 < p \<Longrightarrow>
   u \<notin> {Some ''MILLION'', Some ''BILLION'', Some ''UNIT'', Some ''UNIT_PER_SQUARE'',
         Some ''MILLION_PER_SQUARE''} \<Longrightarrow>
   normalize_price (Some p) u = Some p"
  by (simp add: normalize_price_def)

theorem normalize_price_unknown_unit_witness:
  "normalize_price (Some 1200) None = Some 1200
   \<and> normalize_price (Some 1200) (Some ''THOUSAND'') = Some 1200"
  using normalize_price_unknown_unit [of 1200 None]
        normalize_price_unknown_unit [of 1200 "Some ''THOUSAND''"]
  by simp

section \<open>Properties of surface and room cleaning\<close>

lemma surface_mask_bounds: "surface_mask (Some v) = (5 \<le> v \<and> v \<le> 5000)"
  by (simp add: surface_mask_def ge_nan_def le_nan_def)

lemma clean_surface_row_bounds:
  "CleanSurface (clean_surface_row r) = Some v \<Longrightarrow> 5 \<le> v \<and> v \<le> 5000"
  by (cases "extract_surface (Surface r)")
     (auto simp: clean_surface_row_def Let_def surface_mask_bounds split: if_splits)

lemma extract_rooms_bounds: "extract_rooms c = Some v \<Longrightarrow> 1 \<le> v \<and> v \<le> 20"
  by (auto simp: extract_rooms_def split: cell.splits option.splits if_splits)

text \<open>
  C5. After surface and room cleaning every non-null cleaned surface lies in [5, 5000]
  and every non-null cleaned room count lies in [1, 20]. A parsed value outside the
  bounds becomes missing: it is not clamped, and the cleaning step keeps every row.
\<close>

theorem clean_surface_rooms_bounds:
  "length (clean_surface df) = length df
   \<and> length (clean_rooms df) = length df
   \<and> (\<forall>r \<in> set (clean_surface df). \<forall>v. CleanSurface r = Some v \<longrightarrow> 5 \<le> v \<and> v \<le> 5000)
   \<and> (\<forall>r \<in> set (clean_rooms df). \<forall>v. CleanRooms r = Some v \<longrightarrow> 1 \<le> v \<and> v \<le> 20)
   \<and> (\<forall>r v. extract_surface (Surface r) = Some v \<and> (v < 5 \<or> 5000 < v)
          \<longrightarrow> CleanSurface (clean_surface_row r) = None)
   \<and> (\<forall>s n. parse_rooms s = Some n \<and> (n < 1 \<or> 20 < n) \<longrightarrow> extract_rooms (CStr s) = None)"
proof -
  have a: "\<forall>r \<in> set (clean_surface df). \<forall>v. CleanSurface r = Some v \<longrightarrow> 5 \<le> v \<and> v \<le> 5000"
    using clean_surface_row_bounds by (auto simp: clean_surface_def)
  have b: "\<forall>r \<in> set (clean_rooms df). \<forall>v. CleanRooms r = Some v \<longrightarrow> 1 \<le> v \<and> v \<le> 20"
    using extract_rooms_bounds by (auto simp: clean_rooms_def)
  have c: "\<forall>r v. extract_surface (Surface r) = Some v \<and> (v < 5 \<or> 5000 < v)
             \<longrightarrow> CleanSurface (clean_surface_row r) = None"
    by (auto simp: clean_surface_row_def surface_mask_bounds)
  have d: "\<forall>s n. parse_rooms s = Some n \<and> (n < 1 \<or> 20 < n) \<longrightarrow> extract_rooms (CStr s) = None"
    by (auto simp: extract_rooms_def)
  show ?thesis using a b c d by (simp add: clean_surface_def clean_rooms_def)
qed

lemma scenario_surface:
  "extract_surface (CStr ([CHR ''['', CHR 0x27] @ ''124 m'' @ [CHR 0xB2, CHR 0x27, CHR '']'']))
     = Some 124"
  by (simp add: extract_surface_def strip_brackets_def surface_match_here_def is_digit_def
      is_space_def starts_m_def float_of_group_def digits_val_def digit_val_def)

lemma scenario_rooms:
  "extract_rooms (CStr ([CHR ''['', CHR 0x27] @ ''3 pi'' @ [CHR 0xE8] @ ''ces'' @ [CHR 0x27, CHR '']'']))
     = Some 3"
  by (simp add: extract_rooms_def parse_rooms_def strip_brackets_def is_digit_def
      digits_val_def digit_val_def)

lemma out_of_range_surface: "extract_surface (CStr ''7000 m2'') = Some 7000"
  by (simp add: extract_surface_def strip_brackets_def surface_match_here_def is_digit_def
      is_space_def starts_m_def float_of_group_def digits_val_def digit_val_def)

lemma out_of_range_rooms: "parse_rooms ''25 chambres'' = Some 25"
  by (simp add: parse_rooms_def strip_brackets_def is_digit_def digits_val_def digit_val_def)

theorem clean_surface_rooms_bounds_witness:
  "map CleanSurface
     (clean_surface
        [raw_listing None None
           (CStr ([CHR ''['', CHR 0x27] @ ''124 m'' @ [CHR 0xB2, CHR 0x27, CHR '']''])) CNaN,
         raw_listing None None (CStr ''7000 m2'') CNaN]) = [Some 124, None]
   \<and> map CleanRooms
       (clean_rooms
          [raw_listing None None CNaN
             (CStr ([CHR ''['', CHR 0x27] @ ''3 pi'' @ [CHR 0xE8] @ ''ces'' @ [CHR 0x27, CHR '']''])),
           raw_listing None None CNaN (CStr ''25 chambres'')]) = [Some 3, None]"
  using clean_surface_rooms_bounds
          [of "[raw_listing None None
                  (CStr ([CHR ''['', CHR 0x27] @ ''124 m'' @ [CHR 0xB2, CHR 0x27, CHR '']''])) CNaN,
                raw_listing None None (CStr ''7000 m2'') CNaN]"]
        scenario_surface scenario_rooms out_of_range_surface out_of_range_rooms
  by (simp add: clean_surface_def clean_surface_row_def clean_rooms_def raw_listing_def
      surface_mask_bounds extract_rooms_def)

section \<open>Properties of the derived price per square metre\<close>


lemma fdiv_quotient:
  assumes "y \<noteq> 0" and "\<bar>x / y\<bar> < overflow_threshold"
  shows "fdiv (Some x) (Some y) = Fin (x / y)"
proof -
  define q where "q = x / y"
  have "\<bar>q\<bar> < overflow_threshold" using assms(2) by (simp only: q_def)
  then have "\<not> overflow_threshold \<le> q" and "\<not> q \<le> - overflow_threshold"
    by linarith+
  then show ?thesis
    using assms(1) by (simp add: fdiv_def q_def [symmetric])
qed

lemma fdiv_overflows: "fdiv (Some (10 ^ 308)) (Some (1 / 10 ^ 5)) = PInf"
proof -
  have "overflow_threshold \<le> 2 * 2 ^ 1023"
    unfolding overflow_threshold_def by (rule mult_right_mono) simp_all
  also have "\<dots> \<le> (10::real) ^ 308 / (1 / 10 ^ 5)" by simp
  finally show ?thesis by (simp add: fdiv_def)
qed


lemma price_per_sqm_quotient:
  "0 < s \<Longrightarrow> \<bar>p / s\<bar> < overflow_threshold \<Longrightarrow> price_per_sqm (Some p) (Some s) = Fin (p / s)"
  by (simp add: price_per_sqm_def gt_nan_def isna_def fdiv_quotient)

lemma add_derived_features_cell_finite: "add_derived_features_cell x y \<notin> {PInf, NInf}"
  by (auto simp: add_derived_features_cell_def replace_inf_def)

lemma add_derived_features_cell_missing:
  "add_derived_features_cell x None = NaN" "add_derived_features_cell None y = NaN"
  "add_derived_features_cell x (Some 0) = NaN"
  by (auto simp: add_derived_features_cell_def replace_inf_def fdiv_def split: option.splits)

lemma add_derived_features_cell_quotient:
  "0 < s \<Longrightarrow> \<bar>p / s\<bar> < overflow_threshold \<Longrightarrow>
   add_derived_features_cell (Some p) (Some s) = Fin (p / s)"
  by (simp add: add_derived_features_cell_def replace_inf_def fdiv_quotient)


section \<open>Properties of the range filters\<close>

lemma missing_price_passes_root_filter:
  "NormalizedPrice r = None \<Longrightarrow> r \<in> set df \<Longrightarrow> r \<in> set (filter_unrealistic_prices df)"
  by (simp add: filter_unrealistic_prices_def price_filter_mask_def valid_regular_prices_def
      valid_per_sqm_prices_def isna_def)

lemma missing_surface_passes_platform_filter:
  "extract_surface_info to_numeric
     [(''Price'', NumCol [Some 250000, Some 300000, Some 1]),
      (''Surface'', NumCol [Some 80, None, Some 20000])]
   = [(''Price'', NumCol [Some 250000, Some 300000]), (''Surface'', NumCol [Some 80, None])]"
  by (simp add: extract_surface_info_def coerce_numeric_def filter_rows_def select_col_def
      select_def isna_def ge_nan_def le_nan_def)

text \<open>
  C6. A row with a missing value passes every range check. The price filter of the
  platform pipeline does not do so: its mask is false on a missing price, and the row
  is removed.
\<close>

theorem filter_realistic_prices_drops_missing_price:
  "filter_realistic_prices
     [(''Price'', NumCol [Some 250000, None]),
      (''Location'', ObjCol [Some ''Alger'', Some ''Oran''])] ''Price'' 10000 50000000
   = Inr [(''Price'', NumCol [Some 250000]), (''Location'', ObjCol [Some ''Alger''])]"
  by (simp add: filter_realistic_prices_def filter_rows_def select_col_def select_def
      ge_nan_def le_nan_def)


section \<open>Properties of the strategy selector\<close>

lemma floor_sqrt_bounds:
  "floor_sqrt n * floor_sqrt n \<le> n \<and> n < (floor_sqrt n + 1) * (floor_sqrt n + 1)"
proof (induction n)
  case 0
  show ?case by simp
next
  case (Suc n)
  then show ?case by (auto simp: Let_def)
qed

lemma floor_sqrt_eq: "floor_sqrt n = nat \<lfloor>sqrt (real n)\<rfloor>"
proof -
  let ?r = "floor_sqrt n"
  have lo: "real ?r \<le> sqrt (real n)"
  proof (rule real_le_rsqrt)
    have "?r * ?r \<le> n" using floor_sqrt_bounds by blast
    then have "real (?r * ?r) \<le> real n" by (rule of_nat_mono)
    then show "(real ?r)\<^sup>2 \<le> real n" by (simp add: power2_eq_square)
  qed
  have hi: "sqrt (real n) < real ?r + 1"
  proof (rule real_less_lsqrt)
    show "0 \<le> real ?r + 1" by simp
    have "n < (?r + 1) * (?r + 1)" using floor_sqrt_bounds by blast
    then have "real n < real ((?r + 1) * (?r + 1))" by (simp only: of_nat_less_iff)
    then show "real n < (real ?r + 1)\<^sup>2" by (simp add: power2_eq_square algebra_simps)
  qed
  have "\<lfloor>sqrt (real n)\<rfloor> = int ?r"
    using lo hi by (simp add: floor_eq_iff)
  then show ?thesis by simp
qed

lemma sqrt_10_not_3: "real 3 \<noteq> min 5 (max 3 (sqrt (real 10)))"
proof -
  have "3 < sqrt 10" by (rule real_less_rsqrt) simp
  moreover have "sqrt 10 < 5" by (rule real_less_lsqrt) simp_all
  ultimately show ?thesis by simp
qed

lemmas frame_eval = missing_percentage_def null_count_def complete_rows_def null_rows_def
  isnull_def nrows_def col_length_def isna_def lt_nan_def gt_nan_def

text \<open>
  C7, as stated, gives the neighbour count as min(5, max(3, sqrt(complete rows))). The
  code truncates the square root to an integer first: with 10 complete rows it builds a
  3-nearest-neighbour imputer, and the stated formula gives the square root of 10.
\<close>

theorem smart_impute_numerical_knn_counterexample:
  "smart_impute_numerical (\<lambda>xs. None)
     [(''Surface'', NumCol (replicate 10 (Some 50) @ [None]))] ''Surface'' Auto
   = Inr (KNNImputer 3 Distance, Knn)
   \<and> complete_rows [(''Surface'', NumCol (replicate 10 (Some 50) @ [None]))] = 10
   \<and> real 3 \<noteq> min 5 (max 3 (sqrt (real 10)))"
  using sqrt_10_not_3
  by (simp add: smart_impute_numerical_def frame_eval eval_nat_numeral)

text \<open>
  C7, amended. Under the 'auto' policy, for a numeric column of a non-empty table the
  selector chooses simple fill when the missing percentage is under 5 (median when the
  magnitude of the skewness exceeds 1, mean otherwise, also for an undefined skewness);
  k-nearest-neighbour with distance weighting and k = min(5, max(3, the square root of
  the number of complete rows rounded down to an integer)) when the percentage is at
  least 5 and under 20; and iterative regression with a random forest of 10 trees and
  at most 10 iterations when the percentage is 20 or more.
\<close>

theorem smart_impute_numerical_auto:
  assumes "map_of df column = Some (NumCol xs)" and "0 < nrows df"
  shows "smart_impute_numerical skew df column Auto =
     (let pct = real (null_count (NumCol xs)) / real (nrows df) * 100
      in if pct < 5 then
           Inr (SimpleImputer (case skew xs of
                                 Some g \<Rightarrow> if 1 < \<bar>g\<bar> then Median else Mean
                               | None \<Rightarrow> Mean), Simple)
         else if pct < 20 then
           Inr (KNNImputer (min 5 (max 3 (nat \<lfloor>sqrt (real (complete_rows df))\<rfloor>))) Distance, Knn)
         else Inr (IterativeImputer (RandomForestRegressor 10 42) 10 42, Iterative))"
  using assms
  by (auto simp: smart_impute_numerical_def missing_percentage_def lt_nan_def gt_nan_def
      floor_sqrt_eq Let_def split: option.splits)

theorem smart_impute_numerical_auto_witness:
  "smart_impute_numerical (\<lambda>xs. Some 2)
     [(''Surface'', NumCol (replicate 10 (Some 50) @ [None]))] ''Surface'' Auto
   = Inr (KNNImputer 3 Distance, Knn)
   \<and> smart_impute_numerical (\<lambda>xs. Some 2)
     [(''Surface'', NumCol (replicate 20 (Some 50) @ [None]))] ''Surface'' Auto
   = Inr (SimpleImputer Median, Simple)
   \<and> smart_impute_numerical (\<lambda>xs. Some 2)
     [(''Surface'', NumCol [Some 50, None])] ''Surface'' Auto
   = Inr (IterativeImputer (RandomForestRegressor 10 42) 10 42, Iterative)"
proof -
  let ?a = "[(''Surface'', NumCol (replicate 10 (Some 50) @ [None]))]"
  let ?b = "[(''Surface'', NumCol (replicate 20 (Some 50) @ [None]))]"
  let ?c = "[(''Surface'', NumCol [Some 50, None])]"
  have k: "nat \<lfloor>sqrt (real 10)\<rfloor> = 3"
    using floor_sqrt_eq [of 10, symmetric] by (simp add: eval_nat_numeral)
  have a: "map_of ?a ''Surface'' = Some (NumCol (replicate 10 (Some 50) @ [None]))"
    and a': "0 < nrows ?a" by (simp_all add: frame_eval)
  have b: "map_of ?b ''Surface'' = Some (NumCol (replicate 20 (Some 50) @ [None]))"
    and b': "0 < nrows ?b" by (simp_all add: frame_eval)
  have c: "map_of ?c ''Surface'' = Some (NumCol [Some 50, None])"
    and c': "0 < nrows ?c" by (simp_all add: frame_eval)
  have na: "null_count (NumCol (replicate 10 (Some 50) @ [None])) = 1"
    and ra: "nrows ?a = 11" and ca: "complete_rows ?a = 10"
    by (simp_all add: frame_eval eval_nat_numeral)
  have nb: "null_count (NumCol (replicate 20 (Some 50) @ [None])) = 1"
    and rb: "nrows ?b = 21"
    by (simp_all add: frame_eval eval_nat_numeral)
  have nc: "null_count (NumCol [Some 50, None]) = 1"
    and rc: "nrows ?c = 2"
    by (simp_all add: frame_eval)
  have 1: "smart_impute_numerical (\<lambda>xs. Some 2) ?a ''Surface'' Auto
             = Inr (KNNImputer 3 Distance, Knn)"
    using smart_impute_numerical_auto [OF a a', of "\<lambda>xs. Some 2"] k
    by (simp add: na ra ca Let_def)
  have 2: "smart_impute_numerical (\<lambda>xs. Some 2) ?b ''Surface'' Auto
             = Inr (SimpleImputer Median, Simple)"
    using smart_impute_numerical_auto [OF b b', of "\<lambda>xs. Some 2"]
    by (simp add: nb rb Let_def)
  have 3: "smart_impute_numerical (\<lambda>xs. Some 2) ?c ''Surface'' Auto
             = Inr (IterativeImputer (RandomForestRegressor 10 42) 10 42, Iterative)"
    using smart_impute_numerical_auto [OF c c', of "\<lambda>xs. Some 2"]
    by (simp add: nc rc Let_def)
  show ?thesis using 1 2 3 by (intro conjI)
qed

section \<open>Properties of the surface imputation step\<close>

lemma partial_fill_Wilaya [simp]: "Wilaya (partial_fill df D r) = Wilaya r"
  by (simp add: partial_fill_def split: option.splits)

lemma partial_fill_other_group:
  "eq_nan (Wilaya r) w \<Longrightarrow> w \<notin> set D \<Longrightarrow> partial_fill df D r = r"
  by (auto simp: partial_fill_def eq_nan_def)

lemma filter_partial_fill:
  "w \<notin> set D \<Longrightarrow>
   filter (\<lambda>r. eq_nan (Wilaya r) w) (map (partial_fill df D) xs)
     = filter (\<lambda>r. eq_nan (Wilaya r) w) xs"
  by (induction xs) (auto simp: partial_fill_other_group)

lemma median_partial_fill:
  "w \<notin> set D \<Longrightarrow>
   wilaya_median_surface (map (partial_fill df D) df) w = wilaya_median_surface df w"
  by (simp add: wilaya_median_surface_def filter_partial_fill)

lemma zip_mask_rows:
  "zip (map f xs) (map g xs) = map (\<lambda>r. (f r, g r)) xs"
  by (induction xs) auto

lemma wilaya_step_partial_fill:
  assumes "w \<notin> set D"
  shows "wilaya_step (map (\<lambda>r. isna (CleanSurface r)) df) (map (partial_fill df D) df) w
           = map (partial_fill df (w # D)) df"
proof (cases "wilaya_median_surface df w")
  case None
  have "partial_fill df (w # D) r = partial_fill df D r" for r
    using None by (auto simp: partial_fill_def eq_nan_def split: option.splits)
  then show ?thesis
    using None assms by (simp add: wilaya_step_def median_partial_fill)
next
  case (Some m)
  have "(if eq_nan (Wilaya (partial_fill df D r)) w \<and> isna (CleanSurface r)
         then (partial_fill df D r)\<lparr>CleanSurface := Some m\<rparr> else partial_fill df D r)
        = partial_fill df (w # D) r" for r
    using Some assms by (auto simp: partial_fill_def eq_nan_def split: option.splits)
  then show ?thesis
    using Some assms by (simp add: wilaya_step_def median_partial_fill zip_mask_rows)
qed

lemma partial_fill_set: "set D = set E \<Longrightarrow> partial_fill df D = partial_fill df E"
  by (rule ext) (simp add: partial_fill_def)

lemma foldl_wilaya_step:
  "distinct ws \<Longrightarrow> set ws \<inter> set D = {} \<Longrightarrow>
   foldl (wilaya_step (map (\<lambda>r. isna (CleanSurface r)) df)) (map (partial_fill df D) df) ws
     = map (partial_fill df (ws @ D)) df"
proof (induction ws arbitrary: D)
  case Nil
  show ?case by simp
next
  case (Cons w ws)
  have w: "w \<notin> set D" using Cons.prems by auto
  have "set ws \<inter> set (w # D) = {}" using Cons.prems by auto
  then have "foldl (wilaya_step (map (\<lambda>r. isna (CleanSurface r)) df))
               (map (partial_fill df (w # D)) df) ws
             = map (partial_fill df (ws @ w # D)) df"
    using Cons.IH [of "w # D"] Cons.prems by simp
  moreover have "partial_fill df (ws @ w # D) = partial_fill df ((w # ws) @ D)"
    by (rule partial_fill_set) auto
  ultimately show ?case by (simp add: wilaya_step_partial_fill [OF w])
qed

lemma wilaya_median_surface_None [simp]: "wilaya_median_surface df None = None"
proof -
  have "filter (\<lambda>r. eq_nan (Wilaya r) None) df = []"
    by (induction df) (auto simp: eq_nan_def)
  then show ?thesis
    by (simp add: wilaya_median_surface_def median_def observed_def)
qed

lemma wilaya_median_fill_closed:
  "wilaya_median_fill (map (\<lambda>r. isna (CleanSurface r)) df) df
     = map (\<lambda>r. case CleanSurface r of
                   Some v \<Rightarrow> r
                 | None \<Rightarrow> r\<lparr>CleanSurface := wilaya_median_surface df (Wilaya r)\<rparr>) df"
proof -
  let ?U = "unique (map Wilaya df)"
  have d: "distinct ?U" and s: "set ?U = Wilaya ` set df"
    by (simp_all add: unique_def)
  have "map (partial_fill df []) df = df"
    by (simp add: partial_fill_def map_idI)
  then have "wilaya_median_fill (map (\<lambda>r. isna (CleanSurface r)) df) df
               = map (partial_fill df (?U @ [])) df"
    using foldl_wilaya_step [OF d, of "[]" df] by (simp add: wilaya_median_fill_def)
  moreover have "partial_fill df (?U @ []) r
      = (case CleanSurface r of
           Some v \<Rightarrow> r
         | None \<Rightarrow> r\<lparr>CleanSurface := wilaya_median_surface df (Wilaya r)\<rparr>)"
    if "r \<in> set df" for r
  proof (cases "Wilaya r")
    case None
    then show ?thesis
      by (cases "CleanSurface r") (auto simp: partial_fill_def eq_nan_def isna_def)
  next
    case (Some w)
    then have "Wilaya r \<in> set ?U"
      using that s by (simp add: rev_image_eqI)
    then have "\<exists>w \<in> set ?U. eq_nan (Wilaya r) w"
      using Some by (auto simp: eq_nan_def)
    then show ?thesis
      by (cases "CleanSurface r")
         (auto simp: partial_fill_def isna_def split: option.splits)
  qed
  ultimately show ?thesis by (simp cong: map_cong)
qed


lemma available_features_nonempty:
  assumes "df \<noteq> []"
  shows "0 < length (available_features df)"
proof -
  let ?c = "map (\<lambda>k. Some (real k)) (label_encode (map (astype_str \<circ> Wilaya) df))"
  have "length ?c = length df" by (simp add: label_encode_def)
  then have "?c \<noteq> []" using assms by auto
  then have "\<not> list_all isna ?c"
    by (cases ?c) (auto simp: isna_def)
  then show ?thesis by (simp add: available_features_def)
qed

lemma no_missing_identity:
  assumes "filter (\<lambda>b. b) (map (\<lambda>r. isna (CleanSurface r)) df) = []"
  shows "map (\<lambda>r. case CleanSurface r of Some v \<Rightarrow> r | None \<Rightarrow> r\<lparr>CleanSurface := f r\<rparr>) df = df"
proof -
  have "\<forall>r \<in> set df. CleanSurface r \<noteq> None"
    using assms by (auto simp: filter_empty_conv isna_def)
  then show ?thesis by (auto intro!: map_idI split: option.splits)
qed

lemma global_median_fill_closed:
  "global_median_fill
     (map (\<lambda>r. case CleanSurface r of
                  Some v \<Rightarrow> r
                | None \<Rightarrow> r\<lparr>CleanSurface := g r\<rparr>) df)
   = map (\<lambda>r. case CleanSurface r of
                 Some v \<Rightarrow> r
               | None \<Rightarrow> r\<lparr>CleanSurface :=
                   (case g r of
                      Some m \<Rightarrow> Some m
                    | None \<Rightarrow> median (map (\<lambda>r. case CleanSurface r of
                                                    Some v \<Rightarrow> Some v
                                                  | None \<Rightarrow> g r) df))\<rparr>) df"
proof -
  let ?h = "\<lambda>r. case CleanSurface r of Some v \<Rightarrow> r | None \<Rightarrow> r\<lparr>CleanSurface := g r\<rparr>"
  have col: "map CleanSurface (map ?h df)
               = map (\<lambda>r. case CleanSurface r of Some v \<Rightarrow> Some v | None \<Rightarrow> g r) df"
    by (simp add: comp_def split: option.splits cong: map_cong)
  show ?thesis
  proof (cases "median (map (\<lambda>r. case CleanSurface r of Some v \<Rightarrow> Some v | None \<Rightarrow> g r) df)")
    case None
    show ?thesis
      unfolding global_median_fill_def col None
      by (auto split: option.splits)
  next
    case (Some m)
    show ?thesis
      unfolding global_median_fill_def col Some
      by (auto simp: isna_def split: option.splits)
  qed
qed

lemma impute_surface_fallback_le_10:
  assumes "surface_complete_rows df \<le> 10"
  shows "impute_surface fit df =
     Inr (map (\<lambda>r. case CleanSurface r of
                     Some v \<Rightarrow> r
                   | None \<Rightarrow> r\<lparr>CleanSurface :=
                       (case wilaya_median_surface df (Wilaya r) of
                          Some m \<Rightarrow> Some m
                        | None \<Rightarrow>
                            median (map (\<lambda>r. case CleanSurface r of
                                               Some v \<Rightarrow> Some v
                                             | None \<Rightarrow> wilaya_median_surface df (Wilaya r))
                                      df))\<rparr>) df)"
proof (cases "filter (\<lambda>b. b) (map (\<lambda>r. isna (CleanSurface r)) df) = []")
  case True
  then show ?thesis
    by (simp add: impute_surface_def no_missing_identity)
next
  case False
  then have "df \<noteq> []" by auto
  then have "0 < length (available_features df)"
    by (rule available_features_nonempty)
  then have "impute_surface fit df
               = Inr (global_median_fill
                        (wilaya_median_fill (map (\<lambda>r. isna (CleanSurface r)) df) df))"
    using False assms by (simp add: impute_surface_def)
  then show ?thesis
    by (simp only: wilaya_median_fill_closed global_median_fill_closed)
qed


text \<open>
  C3. When fewer than 10 rows are complete (no missing value among the imputation
  features and the surface), the surface imputation step does not use the
  k-nearest-neighbour imputer: every missing surface becomes the median of the observed
  surfaces of its region (wilaya), and where that region has no observed surface, the
  median of the whole column as it stands after the region-wise fill. Observed surfaces
  and all other columns stay as they are.
\<close>

theorem impute_surface_fallback:
  assumes "surface_complete_rows df < 10"
  shows "impute_surface fit df =
     Inr (map (\<lambda>r. case CleanSurface r of
                     Some v \<Rightarrow> r
                   | None \<Rightarrow> r\<lparr>CleanSurface :=
                       (case wilaya_median_surface df (Wilaya r) of
                          Some m \<Rightarrow> Some m
                        | None \<Rightarrow>
                            median (map (\<lambda>r. case CleanSurface r of
                                               Some v \<Rightarrow> Some v
                                             | None \<Rightarrow> wilaya_median_surface df (Wilaya r))
                                      df))\<rparr>) df)"
  using assms by (intro impute_surface_fallback_le_10) simp

lemma sc_complete: "surface_complete_rows scenario_table = 6"
  by (simp add: surface_complete_rows_def imputation_data_def available_features_def
      matrix_null_rows_def scenario_table_def surface_row_def isna_def label_encode_def)

lemma sc_closed:
  "map CleanSurface (map (\<lambda>r. case CleanSurface r of
                     Some v \<Rightarrow> r
                   | None \<Rightarrow> r\<lparr>CleanSurface :=
                       (case wilaya_median_surface scenario_table (Wilaya r) of
                          Some m \<Rightarrow> Some m
                        | None \<Rightarrow>
                            median (map (\<lambda>r. case CleanSurface r of
                                               Some v \<Rightarrow> Some v
                                             | None \<Rightarrow> wilaya_median_surface scenario_table (Wilaya r))
                                      scenario_table))\<rparr>) scenario_table)
   = map Some [80, 100, 120, 50, 70, 90, 60, 65, 100, 110, 150, 40, 45, 55, 60,
                         75, 95, 100, 60, 75]"
  by (simp add: wilaya_median_surface_def median_def observed_def scenario_table_def
      surface_row_def eq_nan_def)


theorem impute_surface_fallback_witness:
  "surface_complete_rows scenario_table = 6
   \<and> length (filter (\<lambda>r. isna (CleanSurface r)) scenario_table) * 100
       = 15 * length scenario_table
   \<and> (case impute_surface (\<lambda>imp X. Inl FitError) scenario_table of
         Inl e \<Rightarrow> None
       | Inr df \<Rightarrow> Some (map CleanSurface df))
       = Some (map Some [80, 100, 120, 50, 70, 90, 60, 65, 100, 110, 150, 40, 45, 55, 60,
                         75, 95, 100, 60, 75])"
proof -
  have h: "surface_complete_rows scenario_table < 10"
    by (simp add: sc_complete)
  have pct: "length (filter (\<lambda>r. isna (CleanSurface r)) scenario_table) * 100
               = 15 * length scenario_table"
    by (simp add: scenario_table_def surface_row_def isna_def)
  show ?thesis
    using impute_surface_fallback [OF h, of "\<lambda>imp X. Inl FitError"] sc_complete pct sc_closed
    by simp
qed

section \<open>Properties of the imputation engine\<close>

text \<open>
  C1. Observed entries keep their value under \<^verbatim>\<open>fit_transform\<close>. The code breaks this
  when a numeric column before the target has no value at all: the imputer leaves that
  column out of its result, the position of the target is still looked up among the
  input columns, and the target receives the next column. Here column C, asked for by
  name, ends up with the values of column D.
\<close>

theorem fit_transform_overwrites_observed:
  "map_prod fst id
     (fit_transform zero_fill_library new_AdvancedImputer empty_column_frame (Some [''C'']) True)
   = ([(''A'', NumCol [None, None, None, None, None, None]),
       (''B'', NumCol [Some 1, Some 2, Some 3, Some 4, Some 5, Some 6]),
       (''C'', NumCol [Some 7, Some 7, Some 7, Some 7, Some 7, Some 8]),
       (''D'', NumCol [Some 7, Some 7, Some 7, Some 7, Some 7, Some 8])], None)"
  by code_simp

lemma fit_transform_default_targets_example:
  "map_prod fst id
     (fit_transform zero_fill_library new_AdvancedImputer empty_column_frame None True)
   = ([(''A'', NumCol [Some 1, Some 2, Some 3, Some 4, Some 5, Some 6]),
       (''B'', NumCol [Some 1, Some 2, Some 3, Some 4, Some 5, Some 6]),
       (''C'', NumCol [Some 10, Some 20, Some 30, Some 40, Some 50, Some 0]),
       (''D'', NumCol [Some 7, Some 7, Some 7, Some 7, Some 7, Some 8])], None)"
  by code_simp

lemma impute_real_estate_data_strategies_unread:
  "preserve_original c1 = preserve_original c2 \<Longrightarrow>
   impute_real_estate_data L df (Some c1) = impute_real_estate_data L df (Some c2)"
  by (simp add: impute_real_estate_data_def)

text \<open>
  C2. The entry point applies the domain-specific strategies: k-nearest-neighbour for
  the price whatever its missing percentage, mode-fill for the location. The code
  passes the configured strategies nowhere; every column goes through the automatic
  selection. Here the price, half missing, is imputed by iterative regression, and the
  location, half missing, by k-nearest-neighbour.
\<close>

theorem impute_real_estate_data_ignores_config:
  "map_sum id (\<lambda>r. map (\<lambda>(column, s). (column, strategy_used s)) (imputation_stats (snd r)))
     (snd (impute_real_estate_data zero_fill_library two_listings (Some imputation_config)))
   = Inr [(''Price'', Iterative), (''Location'', Knn)]
   \<and> price_strategy imputation_config = Knn
   \<and> location_strategy imputation_config = Mode"
  by code_simp

section \<open>Properties of the cleaning stage\<close>

lemma set_col_keeps_columns: "has_column df k \<Longrightarrow> has_column (set_col n c df) k"
  unfolding has_column_def by (induction df) auto

lemma numerical_body_keeps_columns:
  "has_column (fst s) k \<Longrightarrow>
   has_column (fst (fst (numerical_body L df0 p info cols s column))) k"
  by (auto simp: numerical_body_def Let_def set_col_keeps_columns
      split: sum.splits prod.splits if_splits)

lemma categorical_body_keeps_columns:
  "has_column (fst s) k \<Longrightarrow>
   has_column (fst (fst (categorical_body L df0 p info cols s column))) k"
  by (auto simp: categorical_body_def Let_def set_col_keeps_columns
      split: sum.splits prod.splits if_splits option.splits)

lemma for_each_invariant:
  assumes "\<And>s x. P s \<Longrightarrow> P (fst (body s x))"
  shows "P s \<Longrightarrow> P (fst (for_each body xs s))"
proof (induction xs arbitrary: s)
  case Nil
  then show ?case by simp
next
  case (Cons x xs)
  have step: "P (fst (body s x))" using assms Cons.prems by blast
  show ?case
  proof (cases "snd (body s x)")
    case None
    then have "for_each body (x # xs) s = for_each body xs (fst (body s x))"
      by (cases "body s x") simp
    then show ?thesis using Cons.IH [OF step] by simp
  next
    case (Some e)
    then have "for_each body (x # xs) s = body s x"
      by (cases "body s x") simp
    then show ?thesis using step by simp
  qed
qed

lemma fit_transform_keeps_columns:
  assumes "has_column df k"
  shows "has_column (fst (fst (fit_transform L self df targets p))) k"
proof -
  let ?P = "\<lambda>s :: frame \<times> AdvancedImputer. has_column (fst s) k"
  have num: "?P (fst (for_each (numerical_body L df p info cols) ts s))" if "?P s"
    for info cols ts s
    using that by (rule for_each_invariant [where P = ?P, rotated])
      (rule numerical_body_keeps_columns)
  have cat: "?P (fst (for_each (categorical_body L df p info cols) ts s))" if "?P s"
    for info cols ts s
    using that by (rule for_each_invariant [where P = ?P, rotated])
      (rule categorical_body_keeps_columns)
  show ?thesis
    unfolding fit_transform_def Let_def
    by (auto split: option.splits intro!: num cat simp: assms)
qed

lemma filter_rows_keeps_columns: "has_column (filter_rows keep df) k = has_column df k"
  unfolding has_column_def by (induction df) (auto simp: filter_rows_def)

lemma dropna_columns:
  assumes "dropna names h df0 = Inr df" and "name \<in> set names"
  shows "has_column df name"
proof -
  have all: "\<forall>name \<in> set names. map_of df0 name \<noteq> None"
    using assms(1) by (auto simp: dropna_def split: if_splits)
  then have "has_column df0 name"
    using assms(2) by (simp add: has_column_def)
  moreover have "\<exists>keep. df = filter_rows keep df0"
    using assms(1) all by (auto simp: dropna_def split: if_splits)
  ultimately show ?thesis using filter_rows_keeps_columns by blast
qed

lemma dropna_returns:
  "(\<forall>name \<in> set names. has_column df name) \<Longrightarrow> \<exists>out. dropna names h df = Inr out"
  by (simp add: dropna_def has_column_def)


lemma row_nulls_Any_nth:
  "\<forall>c \<in> set nulls. length c = n \<Longrightarrow> i < n \<Longrightarrow>
   row_nulls Any nulls n ! i = (\<exists>c \<in> set nulls. c ! i)"
proof (induction nulls)
  case Nil
  then show ?case by (simp add: row_nulls_def)
next
  case (Cons c nulls)
  have len: "length (row_nulls Any nulls n) = n"
    using Cons.prems(1) by (induction nulls) (auto simp: row_nulls_def)
  have "row_nulls Any (c # nulls) n = map (\<lambda>(a, b). a \<or> b) (zip c (row_nulls Any nulls n))"
    by (simp add: row_nulls_def)
  then show ?case using Cons len by simp
qed

text \<open>
  C9, as stated, has the fallback drop exactly the rows that miss all critical fields.
  The fallback calls \<^verbatim>\<open>dropna\<close> without \<^verbatim>\<open>how='all'\<close>: here the second listing misses only
  its location, no row misses all critical fields, and the fallback drops it.
\<close>

theorem clean_data_fallback_counterexample:
  "clean_data failing_library critical_frame
     = Inr [(''TransactionType'', ObjCol [Some ''Vente'']),
            (''Location'', ObjCol [Some ''Alger'']),
            (''Wilaya'', ObjCol [Some ''Alger'']),
            (''Price'', NumCol [Some 5000000])]
   \<and> dropna critical_columns All critical_frame = Inr critical_frame
   \<and> snd (impute_real_estate_data failing_library critical_frame (Some imputation_config))
       = Inl FitError"
  by code_simp

text \<open>
  C9, amended. When the whole-table imputation attempt raises, the cleaning stage
  catches the error, falls back to dropping the rows that miss at least one of the
  critical fields, in the table as it stands at that moment, and returns the rest: it
  does not abort.
\<close>

theorem clean_data_fallback:
  assumes "dropna critical_columns All df0 = Inr df"
    and "impute_real_estate_data L df (Some imputation_config) = (df', Inl e)"
  shows "clean_data L df0 = dropna critical_columns Any df'
         \<and> (\<exists>out. clean_data L df0 = Inr out)"
proof -
  have eq: "clean_data L df0 = dropna critical_columns Any df'"
    using assms by (simp add: clean_data_def)
  have "df' = fst (fst (fit_transform L new_AdvancedImputer df None False))"
    using assms(2) by (auto simp: impute_real_estate_data_def imputation_config_def Let_def)
  moreover have "\<forall>name \<in> set critical_columns. has_column df name"
    using dropna_columns [OF assms(1)] by blast
  ultimately have "\<forall>name \<in> set critical_columns. has_column df' name"
    using fit_transform_keeps_columns by blast
  then have "\<exists>out. dropna critical_columns Any df' = Inr out"
    by (rule dropna_returns)
  then show ?thesis using eq by simp
qed

lemma critical_frame_dropna_all: "dropna critical_columns All critical_frame = Inr critical_frame"
  by code_simp

lemma critical_frame_imputation_raises:
  "impute_real_estate_data failing_library critical_frame (Some imputation_config)
     = (critical_frame, Inl FitError)"
  by code_simp

lemma critical_frame_dropna_any:
  "dropna critical_columns Any critical_frame
     = Inr [(''TransactionType'', ObjCol [Some ''Vente'']),
            (''Location'', ObjCol [Some ''Alger'']),
            (''Wilaya'', ObjCol [Some ''Alger'']),
            (''Price'', NumCol [Some 5000000])]"
  by code_simp

theorem clean_data_fallback_witness:
  "dropna critical_columns All critical_frame = Inr critical_frame
   \<and> impute_real_estate_data failing_library critical_frame (Some imputation_config)
       = (critical_frame, Inl FitError)
   \<and> clean_data failing_library critical_frame
       = Inr [(''TransactionType'', ObjCol [Some ''Vente'']),
              (''Location'', ObjCol [Some ''Alger'']),
              (''Wilaya'', ObjCol [Some ''Alger'']),
              (''Price'', NumCol [Some 5000000])]"
  using clean_data_fallback [OF critical_frame_dropna_all critical_frame_imputation_raises]
        critical_frame_dropna_all critical_frame_imputation_raises critical_frame_dropna_any
  by simp

text \<open>
  The imputer fills the caller's frame in place (\<^verbatim>\<open>preserve_original\<close> is false), so
  what the fallback filters is the frame as the failed attempt left it: here the price
  of the second listing, imputed before the error, is kept.
\<close>

lemma clean_data_fallback_keeps_imputed_values:
  "clean_data knn_failing_library three_listings
     = Inr [(''TransactionType'', ObjCol [Some ''Vente'', Some ''Vente'']),
            (''Location'', ObjCol [Some ''Alger'', Some ''Oran'']),
            (''Wilaya'', ObjCol [Some ''Alger'', Some ''Oran'']),
            (''Price'', NumCol [Some 5000000, Some 0])]
   \<and> snd (impute_real_estate_data knn_failing_library three_listings (Some imputation_config))
       = Inl FitError"
  by code_simp

end
